theory Spec2Isabelle
  imports Complex_Main
begin

section \<open>React elements\<close>

text \<open>
  A function component returns a tree of React elements. An element has a type (a host tag
  such as \<open>div\<close> or \<open>a\<close>, or the name of a component that is rendered later, such as
  \<open>Container\<close> or \<open>Button\<close>), its props in the order they are written, and its
  children. JSX text is kept as JSX reads it: the lines of a text are trimmed and joined by
  one space. Strings are byte strings; a character outside ASCII is written as its UTF-8
  bytes.
\<close>

type_synonym ref = "nat option"
  \<comment> \<open>a forwarded ref: \<open>None\<close> is \<open>null\<close>, \<open>Some i\<close> the ref object \<open>i\<close>\<close>

datatype jsx =
    Element string "(string \<times> prop_value) list" "jsx list"
  | JsxText string
and prop_value =
    Str string
  | Undefined
  | BoolV bool
  | JsxV jsx
  | StyleV "(string \<times> real) list"
  | RefV ref

datatype render_error = RenderError string

type_synonym render_result = "render_error + jsx"

fun tag :: "jsx \<Rightarrow> string" where
  "tag (Element t ps cs) = t"
| "tag (JsxText s) = []"

fun props :: "jsx \<Rightarrow> (string \<times> prop_value) list" where
  "props (Element t ps cs) = ps"
| "props (JsxText s) = []"

fun children :: "jsx \<Rightarrow> jsx list" where
  "children (Element t ps cs) = cs"
| "children (JsxText s) = []"

definition get_prop :: "string \<Rightarrow> jsx \<Rightarrow> prop_value option" where
  "get_prop name e = map_of (props e) name"

text \<open>The elements of a tree, in document order (the root first).\<close>

fun descendants :: "jsx \<Rightarrow> jsx list" where
  "descendants (Element t ps cs) = Element t ps cs # concat (map descendants cs)"
| "descendants (JsxText s) = []"

definition elements_of :: "render_result \<Rightarrow> jsx list" where
  "elements_of r = (case r of Inl err \<Rightarrow> [] | Inr m \<Rightarrow> descendants m)"

definition elements_named :: "string \<Rightarrow> render_result \<Rightarrow> jsx list" where
  "elements_named t r = filter (\<lambda>e. tag e = t) (elements_of r)"

text \<open>The elements whose only child is the text \<open>l\<close>.\<close>

definition labelled :: "string \<Rightarrow> jsx list \<Rightarrow> jsx list" where
  "labelled l es = filter (\<lambda>e. children e = [JsxText l]) es"

definition href :: "jsx \<Rightarrow> prop_value option" where
  "href e = get_prop ''href'' e"

section \<open>The state a component renders in\<close>

text \<open>
  What the hooks and \<open>process.env\<close> read while a component renders: the scroll position
  (\<open>useScroll\<close>), whether the header is rendered inside the mobile navigation
  (\<open>useIsInsideMobileNavigation\<close>), whether the mobile navigation is open
  (\<open>useMobileNavigationStore\<close>), and the environment variables. A variable that is not
  set reads as \<open>undefined\<close>, here \<open>None\<close>.
\<close>

record runtime =
  scrollY :: real
  isInsideMobileNavigation :: bool
  mobileNavIsOpen :: bool
  process_env :: "string \<rightharpoonup> string"

text \<open>A state to run the components in: the page scrolled by 36 pixels, both variables set.\<close>

definition example_runtime :: runtime where
  "example_runtime =
     \<lparr> scrollY = 36, isInsideMobileNavigation = False, mobileNavIsOpen = False,
       process_env = [''NEXT_PUBLIC_SIGNIN_URL'' \<mapsto> ''https://app.inngest.com/sign-in'',
                      ''NEXT_PUBLIC_SIGNUP_URL'' \<mapsto> ''https://app.inngest.com/sign-up''] \<rparr>"

text \<open>The same state with one more environment variable set, which no component reads.\<close>

definition other_runtime :: runtime where
  "other_runtime = example_runtime\<lparr>process_env :=
      (process_env example_runtime)(''NODE_ENV'' \<mapsto> ''production'')\<rparr>"

section \<open>src/shared/Home/SocialCTA.tsx\<close>

definition SocialCTA :: "unit \<Rightarrow> runtime \<Rightarrow> render_result" where
  "SocialCTA u rt = Inr (
    Element ''div'' [] [
      Element ''Container''
        [(''className'', Str ''my-10 lg:mt-20 lg:mb-12 flex flex-col md:flex-row gap-8 lg:gap-12'')] [
        Element ''div'' [(''className'', Str ''w-full lg:w-1/2 '')] [
          Element ''div''
            [(''className'', Str ''bg-[#5765f2] rounded flex items-center justify-center  text-white h-[140px] lg:h-[200px]'')] [
            Element ''Discord'' [(''size'', Str ''4em'')] []
          ],
          Element ''h4'' [(''className'', Str ''lg:px-8 mt-4 lg:mt-8 mb-2 text-lg text-white'')] [
            JsxText ''Join our Discord community''
          ],
          Element ''p'' [(''className'', Str ''lg:px-8 text-slate-400 text-sm'')] [
            JsxText ''Join our Discord community to share feedback, get updates, and have a direct line to shaping the future of the SDK!''
          ],
          Element ''a''
            [(''href'', Str ''/docs?ref=homepage-hero''),
             (''className'', Str ''lg:mx-6  mt-3 lg:mt-6 inline-flex rounded-full text-sm font-medium px-6 py-2 bg-slate-800 hover:bg-slate-700 transition-all text-white'')] [
            JsxText ''Join the community''
          ]
        ],
        Element ''div'' [(''className'', Str ''w-full lg:w-1/2'')] [
          Element ''div''
            [(''className'', Str ''bg-slate-800 rounded flex items-center justify-center  text-white h-[140px] lg:h-[200px]'')] [
            Element ''Github'' [(''size'', Str ''4em'')] []
          ],
          Element ''h4'' [(''className'', Str ''lg:px-8 mt-4 lg:mt-8 mb-2 text-lg text-white'')] [
            JsxText ''Open Source''
          ],
          Element ''p'' [(''className'', Str ''lg:px-8 text-slate-400 text-sm'')] [
            JsxText ''Inngest's core is open source, giving you piece of mind.''
          ],
          Element ''a''
            [(''href'', Str ''/docs?ref=homepage-hero''),
             (''className'', Str ''lg:mx-6  mt-3 lg:mt-6 inline-flex rounded-full text-sm font-medium px-6 py-2 bg-slate-800 hover:bg-slate-700 transition-all text-white'')] [
            JsxText ''View Project''
          ]
        ]
      ]
    ])"

text \<open>
  A link leaves the site when its URL names a scheme and host (\<open>https://\<close>, \<open>http://\<close>)
  or is protocol-relative (\<open>//host\<close>); a URL that starts with one slash is a route of the
  site.
\<close>

definition starts_with :: "string \<Rightarrow> string \<Rightarrow> bool" where
  "starts_with p s = (take (length p) s = p)"

definition is_external_url :: "string \<Rightarrow> bool" where
  "is_external_url u =
     (starts_with ''https://'' u \<or> starts_with ''http://'' u \<or> starts_with ''//'' u)"

definition is_site_route :: "string \<Rightarrow> bool" where
  "is_site_route u = (starts_with ''/'' u \<and> \<not> starts_with ''//'' u)"

section \<open>src/shared/Home/ShipInHours.tsx\<close>

text \<open>
  The em dash of line 38 and the en dash of line 72 are written as their UTF-8 bytes. The
  class name of the comparison grid is a template literal that spans lines: its line breaks
  and indentation are part of the string. The JSX comment of line 51 and the white space of
  line 61 produce no child.
\<close>

definition ShipInHours :: "unit \<Rightarrow> runtime \<Rightarrow> render_result" where
  "ShipInHours u rt = Inr (
    Element ''div'' [(''className'', Str ''overflow-x-hidden pb-60 -mb-60'')] [
      Element ''div'' [] [
        Element ''Container'' [(''className'', Str ''mt-6 mb-30 relative z-30'')] [
          Element ''SectionHeader''
            [(''center'', BoolV True),
             (''pre'', Str ''Built for every developer''),
             (''title'', JsxV (
                Element ''span''
                  [(''className'', Str ''gap-2 items-end text-slate-200 font-medium text-2xl lg:text-4xl xl:text-5xl mb-4 tracking-tighter text-center'')] [
                  JsxText ''Ship in hours, not months''
                ]))] [],
          Element ''div'' [(''className'', Str ''flex justify-center'')] [
            Element ''p'' [(''className'', Str ''text-center max-w-md lg:max-w-xl mt-4 text-slate-200'')] [
              JsxText ''Build background jobs, scheduled jobs, and workflows by adding our SDK to your existing codebase and redeploying to your current platform.  Think in code without worrying about infra, queues, and config.''
            ]
          ],
          Element ''div''
            [(''className'', Str (
                [CHR 0x0A] @ ''            my-20 grid xl:grid-cols-3 grid-cols-1 lg:gap-20 py-20 xl:pl-20 px-6''
                @ [CHR 0x0A] @ ''            bg-slate-900/70 backdrop-blur-sm rounded-xl''
                @ [CHR 0x0A] @ ''          ''))] [
            Element ''div'' [(''className'', Str ''flex flex-col justify-stretch items-center h-full'')] [
              Element ''div'' [(''className'', Str ''text-center pb-20'')] [
                Element ''p'' [(''className'', Str ''font-semibold text-xl mb-4'')] [JsxText ''With Inngest''],
                Element ''p'' [] [
                  JsxText (''Write and deploy workflows as functions '' @ [CHR 0xE2, CHR 0x80, CHR 0x94]
                    @ '' everything else is done for you.'')
                ]
              ],
              Element ''div'' [(''className'', Str ''flex items-center flex-1'')] [
                Element ''img''
                  [(''src'', Str ''/assets/with-inngest.svg''),
                   (''alt'', Str ''With Inngest''),
                   (''className'', Str ''lg:max-w-[210px] max-w-full'')] []
              ]
            ],
            Element ''div'' [(''className'', Str ''col-span-2 flex flex-col items-center justify-center'')] [
              Element ''div'' [(''className'', Str ''text-center max-w-[400px] m-auto pb-20'')] [
                Element ''p'' [(''className'', Str ''font-semibold text-xl mb-4'')] [JsxText ''Without Inngest''],
                Element ''p'' [] [
                  JsxText ''Provision queues, handlers, and glue code for each job in a workflow, with everything handled manually.''
                ]
              ],
              Element ''img''
                [(''src'', Str ''/assets/without-inngest.svg''),
                 (''alt'', Str ''With Inngest''),
                 (''className'', Str ''lg:max-w-[540px] max-w-full'')] []
            ]
          ],
          Element ''div''
            [(''className'', Str ''w-screen max-w-screen relative md:-mt-20 lg:-mt-32 xl:-mt-[600px] xl:mb-[600px] z-20 opacity-50 pointer-events-none'')] [
            Element ''div'' [(''className'', Str '' blur-3xl w-[200px] md:w-[400px] lg:w-[500px] h-[200px] md:h-[400px] lg:h-[500px] bg-sky-500/20 absolute rounded-full left-1/2 -translate-x-[20%] translate-y-[40%] '')] [],
            Element ''div'' [(''className'', Str '' blur-3xl w-[200px] md:w-[450px] lg:w-[550px] h-[200px] md:h-[450px] lg:h-[550px] bg-indigo-500/30 absolute rounded-full left-1/2 -translate-x-[100%] translate-y-[40%] '')] [],
            Element ''div'' [(''className'', Str '' blur-3xl w-[200px] md:w-[300px] lg:w-[400px] h-[200px] md:h-[300px] lg:h-[400px] bg-purple-500/30 absolute rounded-full left-1/2 translate-x-[50%] translate-y-[40%] '')] [],
            Element ''div'' [(''className'', Str '' blur-3xl w-[200px] md:w-[400px] lg:w-[500px] h-[200px] md:h-[400px] lg:h-[500px] bg-indigo-500/10 absolute rounded-full bottom-0 left-1/2 -translate-x-[20%] -translate-y-[62%] '')] [],
            Element ''div'' [(''className'', Str '' blur-3xl w-[200px] md:w-[400px] lg:w-[550px] h-[200px] md:h-[400px] lg:h-[550px] bg-purple-500/10 absolute rounded-full bottom-0 left-1/2 -translate-x-[100%] translate-y-[50%] '')] [],
            Element ''div'' [(''className'', Str '' blur-3xl w-[200px] md:w-[200px] lg:w-[400px] h-[200px] md:h-[200px] lg:h-[400px] bg-blue-500/10 absolute rounded-full bottom-0 left-1/2 translate-x-[50%] translate-y-[6%] '')] [],
            Element ''div'' [(''className'', Str ''overflow-x-hidden overflow-y-hidden w-screen'')] []
          ],
          Element ''div''
            [(''className'', Str ''grid xl:grid-cols-3 xl:gap-20 gap-y-20 mb-20 lg:grid-cols-1 mt-20 xl:px-32'')] [
            Element ''div'' [] [
              Element ''h3'' [(''className'', Str ''font-semibold text-xl mb-4'')] [JsxText ''Focus on functions''],
              Element ''p'' [(''className'', Str ''text-slate-200'')] [
                JsxText ''Develop faster by working only on your business logic.  We take care of the hard stuff for you, including retries, concurrency, throttling, rate limiting, and failure replay.''
              ]
            ],
            Element ''div'' [] [
              Element ''h3'' [(''className'', Str ''font-semibold text-xl mb-4'')] [JsxText ''Simple and powerful primitives''],
              Element ''p'' [(''className'', Str ''text-slate-200'')] [
                JsxText (''Write long-running workflows without learning distributed systems with a single line of the SDK, on any platform ''
                  @ [CHR 0xE2, CHR 0x80, CHR 0x93] @ '' even serverless functions.'')
              ]
            ],
            Element ''div'' [] [
              Element ''h3'' [(''className'', Str ''font-semibold text-xl mb-4'')] [JsxText ''Any framework, any platform''],
              Element ''p'' [(''className'', Str ''text-slate-200'')] [
                JsxText ''Drop the SDK into your existing codebase and deploy to your current cloud, using your current CI/CD process.''
              ]
            ]
          ],
          Element ''div'' [(''className'', Str ''pt-12'')] [
            Element ''p'' [(''className'', Str ''text-sm text-center text-gray-400'')] [
              JsxText ''Works with all the frameworks and platforms you already use:''
            ]
          ],
          Element ''div''
            [(''className'', Str ''flex items-end lg:flex-row justify-evenly xl:justify-center w-full m-auto flex-wrap my-8'')] [
            Element ''a''
              [(''href'', Str ''/docs/sdk/serve?ref=homepage-fits-your-workflow#framework-next-js''),
               (''className'', Str ''flex w-1/2 max-w-[140px] hover:scale-110 transition-all duration-150 opacity-50 hover:opacity-100'')] [
              Element ''img''
                [(''className'', Str ''max-w-[140px]''),
                 (''src'', Str ''/assets/homepage/send-events/next-js.png'')] []
            ],
            Element ''a''
              [(''href'', Str ''/docs/sdk/serve?ref=homepage-fits-your-workflow#framework-express''),
               (''className'', Str ''flex w-1/2 max-w-[140px] hover:scale-110 transition-all duration-150 opacity-50 hover:opacity-100'')] [
              Element ''img''
                [(''className'', Str ''max-w-[140px]''),
                 (''src'', Str ''/assets/homepage/send-events/express.png'')] []
            ],
            Element ''a''
              [(''href'', Str ''/docs/sdk/serve?ref=homepage-fits-your-workflow#framework-redwood''),
               (''className'', Str ''flex w-1/2 max-w-[140px] hover:scale-110 transition-all duration-150 opacity-50 hover:opacity-100'')] [
              Element ''img''
                [(''className'', Str ''max-w-[140px]''),
                 (''src'', Str ''/assets/homepage/send-events/redwood.png'')] []
            ],
            Element ''a''
              [(''href'', Str ''/docs/deploy/vercel?ref=homepage-fits-your-workflow''),
               (''className'', Str ''flex w-1/2 md:w-1/3 max-w-[140px] hover:scale-110 transition-all duration-150 opacity-50 hover:opacity-100'')] [
              Element ''img''
                [(''className'', Str ''max-w-[140px]''),
                 (''src'', Str ''/assets/homepage/send-events/vercel.png'')] []
            ],
            Element ''a''
              [(''href'', Str ''/docs/deploy/netlify?ref=homepage-fits-your-workflow''),
               (''className'', Str ''flex w-1/2 md:w-1/3 max-w-[140px] hover:scale-110 transition-all duration-150 opacity-50 hover:opacity-100'')] [
              Element ''img''
                [(''className'', Str ''max-w-[140px]''),
                 (''src'', Str ''/assets/homepage/send-events/netlify.png'')] []
            ],
            Element ''a''
              [(''href'', Str ''/docs/deploy/cloudflare?ref=homepage-fits-your-workflow''),
               (''className'', Str ''flex w-1/2 md:w-1/3 max-w-[140px] hover:scale-110 transition-all duration-150 opacity-50 hover:opacity-100'')] [
              Element ''img''
                [(''className'', Str ''max-w-[140px]''),
                 (''src'', Str ''/assets/homepage/send-events/cloudflare-pages.png'')] []
            ]
          ]
        ]
      ]
    ])"

section \<open>URLs\<close>

text \<open>
  The parts of a relative URL: the fragment starts at the first \<open>#\<close>, the query at the
  first \<open>?\<close> before it, and the path is what stands before both. The query's parameters
  are separated by \<open>&\<close>.
\<close>

definition url_without_fragment :: "string \<Rightarrow> string" where
  "url_without_fragment u = takeWhile (\<lambda>c. c \<noteq> CHR ''#'') u"

definition url_path :: "string \<Rightarrow> string" where
  "url_path u = takeWhile (\<lambda>c. c \<noteq> CHR ''?'') (url_without_fragment u)"

definition url_query :: "string \<Rightarrow> string" where
  "url_query u = drop 1 (dropWhile (\<lambda>c. c \<noteq> CHR ''?'') (url_without_fragment u))"

fun split_on :: "char \<Rightarrow> string \<Rightarrow> string \<Rightarrow> string list" where
  "split_on sep cur [] = [cur]"
| "split_on sep cur (c # cs) =
     (if c = sep then cur # split_on sep [] cs else split_on sep (cur @ [c]) cs)"

definition query_params :: "string \<Rightarrow> string list" where
  "query_params u = (if url_query u = [] then [] else split_on (CHR ''&'') [] (url_query u))"

fun href_string :: "jsx \<Rightarrow> string" where
  "href_string e = (case href e of Some (Str s) \<Rightarrow> s | _ \<Rightarrow> [])"

section \<open>src/shared/Docs/Header.tsx\<close>

subsection \<open>What the header takes from its dependencies\<close>

text \<open>
  \<open>clsx\<close> (a dependency, not a file of the repository) builds a class name from its
  arguments: it skips every falsy argument (\<open>false\<close>, \<open>undefined\<close>, the empty string)
  and joins the strings that remain with one space.
\<close>

datatype class_value = ClassName string | ClassFalse | ClassUndefined

fun clsx_from :: "string \<Rightarrow> class_value list \<Rightarrow> string" where
  "clsx_from str [] = str"
| "clsx_from str (ClassName x # rest) =
     (if x = [] then clsx_from str rest
      else clsx_from ((if str = [] then [] else str @ '' '') @ x) rest)"
| "clsx_from str (ClassFalse # rest) = clsx_from str rest"
| "clsx_from str (ClassUndefined # rest) = clsx_from str rest"

definition clsx :: "class_value list \<Rightarrow> string" where
  "clsx args = clsx_from [] args"

text \<open>JavaScript's \<open>b && s\<close> for a boolean \<open>b\<close> and a non-empty string \<open>s\<close>.\<close>

definition js_and :: "bool \<Rightarrow> string \<Rightarrow> class_value" where
  "js_and b s = (if b then ClassName s else ClassFalse)"

text \<open>An optional string as a class value, as a prop value, and inside a template literal.\<close>

definition class_of_optional :: "string option \<Rightarrow> class_value" where
  "class_of_optional v = (case v of None \<Rightarrow> ClassUndefined | Some s \<Rightarrow> ClassName s)"

definition prop_of_optional :: "string option \<Rightarrow> prop_value" where
  "prop_of_optional v = (case v of None \<Rightarrow> Undefined | Some s \<Rightarrow> Str s)"

definition js_String :: "string option \<Rightarrow> string" where
  "js_String v = (case v of None \<Rightarrow> ''undefined'' | Some s \<Rightarrow> s)"

text \<open>
  Modelled from the spec: \<open>useTransform\<close> of framer-motion is not a file of the
  repository. The spec calls it the scroll-driven opacity interpolation of the header, from
  the scroll position to an interpolated output range: the input is clamped to the input
  range and mapped linearly onto the output range. Numbers are real numbers here, not
  IEEE doubles.
\<close>

definition clamp :: "real \<Rightarrow> real \<Rightarrow> real \<Rightarrow> real" where
  "clamp lo hi v = min (max v lo) hi"

definition useTransform :: "real \<Rightarrow> real \<times> real \<Rightarrow> real \<times> real \<Rightarrow> real" where
  "useTransform v inputRange outputRange =
     (let progress = (clamp (fst inputRange) (snd inputRange) v - fst inputRange)
                       / (snd inputRange - fst inputRange)
      in fst outputRange + (snd outputRange - fst outputRange) * progress)"

subsection \<open>The component\<close>

record header_props =
  className :: "string option"

definition Header :: "header_props \<Rightarrow> ref \<Rightarrow> runtime \<Rightarrow> render_result" where
  "Header p r rt =
    (let mobileNavIsOpen = mobileNavIsOpen rt;
         isInsideMobileNavigation = isInsideMobileNavigation rt;
         scrollY = scrollY rt;
         bgOpacityLight = useTransform scrollY (0, 72) (0.5, 0.9);
         bgOpacityDark = useTransform scrollY (0, 72) (0.2, 0.8)
     in Inr (
      Element ''motion.div''
        [(''ref'', RefV r),
         (''className'', Str (clsx [
            class_of_optional (className p),
            ClassName ''fixed inset-x-0 top-0 z-50 flex h-14 items-center justify-between gap-12 px-4 transition sm:px-6 lg:z-30 lg:px-8'',
            js_and (\<not> isInsideMobileNavigation)
              ''backdrop-blur-sm dark:backdrop-blur lg:left-72 xl:left-80'',
            (if isInsideMobileNavigation
             then ClassName ''bg-white dark:bg-slate-900''
             else ClassName ''bg-white/[var(--bg-opacity-light)] dark:bg-slate-950/[var(--bg-opacity-dark)]'')])),
         (''style'', StyleV
            [(''--bg-opacity-light'', bgOpacityLight),
             (''--bg-opacity-dark'', bgOpacityDark)])] [
        Element ''div''
          [(''className'', Str (clsx [
              ClassName ''absolute inset-x-0 top-full h-px transition'',
              js_and (isInsideMobileNavigation \<or> \<not> mobileNavIsOpen)
                ''bg-slate-900/7.5 dark:bg-white/7.5'']))] [],
        Element ''Search'' [] [],
        Element ''div'' [(''className'', Str ''flex items-center gap-5 lg:hidden'')] [
          Element ''MobileNavigation'' [] [],
          Element ''a''
            [(''href'', Str ''/docs''),
             (''className'', Str ''flex gap-1.5 group/logo items-center pt-1'')] [
            Element ''Logo'' [(''className'', Str ''w-20 text-indigo-500 dark:text-white'')] [],
            Element ''span''
              [(''className'', Str ''text-slate-700 dark:text-indigo-400 text-base group-hover/logo:text-white transition-color font-semibold'')] [
              JsxText ''Docs''
            ]
          ]
        ],
        Element ''div'' [(''className'', Str ''flex items-center gap-5'')] [
          Element ''div'' [(''className'', Str ''hidden lg:block mr-3'')] [
            Element ''SocialBadges'' [] []
          ],
          Element ''div'' [(''className'', Str ''hidden sm:flex items-center gap-3'')] [
            Element ''Button''
              [(''href'', prop_of_optional (process_env rt ''NEXT_PUBLIC_SIGNIN_URL'')),
               (''size'', Str ''sm''),
               (''variant'', Str ''secondary'')] [
              JsxText ''Sign In''
            ],
            Element ''Button''
              [(''href'', Str (js_String (process_env rt ''NEXT_PUBLIC_SIGNUP_URL'') @ ''?ref=docs-header'')),
               (''size'', Str ''sm''),
               (''arrow'', Str ''right'')] [
              JsxText ''Sign Up''
            ]
          ],
          Element ''div''
            [(''className'', Str ''hidden lg:block md:h-5 md:w-px md:bg-slate-900/10 md:dark:bg-white/15'')] [],
          Element ''div'' [(''className'', Str ''flex gap-4'')] [
            Element ''MobileSearch'' [] [],
            Element ''ModeToggle'' [] []
          ]
        ]
      ]))"

subsection \<open>Reading the header's markup\<close>

text \<open>
  The class list of an element is its class name split at white space, as the DOM's
  \<open>classList\<close> reads it.
\<close>

definition is_space :: "char \<Rightarrow> bool" where
  "is_space c = (c = CHR '' '' \<or> c = CHR 0x09 \<or> c = CHR 0x0A \<or> c = CHR 0x0C \<or> c = CHR 0x0D)"

fun class_tokens :: "string \<Rightarrow> string \<Rightarrow> string list" where
  "class_tokens cur [] = (if cur = [] then [] else [cur])"
| "class_tokens cur (c # cs) =
     (if is_space c then (if cur = [] then [] else [cur]) @ class_tokens [] cs
      else class_tokens (cur @ [c]) cs)"

definition classList :: "string \<Rightarrow> string list" where
  "classList s = class_tokens [] s"

text \<open>A class list \<open>cl\<close> contains the classes written in \<open>cs\<close>.\<close>

definition has_classes :: "string \<Rightarrow> string list \<Rightarrow> bool" where
  "has_classes cs cl = list_all (\<lambda>c. c \<in> set cl) (classList cs)"

definition class_name :: "jsx \<Rightarrow> string" where
  "class_name e = (case get_prop ''className'' e of Some (Str s) \<Rightarrow> s | _ \<Rightarrow> [])"

text \<open>The root element of a rendering, and the first child of the root (the header's hairline).\<close>

definition root_element :: "render_result \<Rightarrow> jsx" where
  "root_element r = (case r of Inl err \<Rightarrow> JsxText [] | Inr m \<Rightarrow> m)"

definition hairline_element :: "render_result \<Rightarrow> jsx" where
  "hairline_element r = (case children (root_element r) of [] \<Rightarrow> JsxText [] | c # cs \<Rightarrow> c)"

definition caller_classes :: "header_props \<Rightarrow> string list" where
  "caller_classes p = (case className p of None \<Rightarrow> [] | Some s \<Rightarrow> classList s)"

text \<open>A rendering with one prop of its root, or of the first child of its root, left out.\<close>

fun without_prop :: "string \<Rightarrow> jsx \<Rightarrow> jsx" where
  "without_prop name (Element t ps cs) = Element t (filter (\<lambda>kv. fst kv \<noteq> name) ps) cs"
| "without_prop name (JsxText s) = JsxText s"

fun without_first_child_prop :: "string \<Rightarrow> jsx \<Rightarrow> jsx" where
  "without_first_child_prop name (Element t ps (c # cs)) = Element t ps (without_prop name c # cs)"
| "without_first_child_prop name e = e"

definition without_root_prop :: "string \<Rightarrow> render_result \<Rightarrow> render_result" where
  "without_root_prop name r = map_sum id (without_prop name) r"

definition without_class_names :: "render_result \<Rightarrow> render_result" where
  "without_class_names r =
     map_sum id (\<lambda>m. without_prop ''className'' (without_first_child_prop ''className'' m)) r"

text \<open>
  Tailwind's class names: a class is a utility behind any number of variants
  (\<open>dark:\<close>, \<open>lg:\<close>). The background utilities start with \<open>bg-\<close>, the backdrop-blur
  utilities with \<open>backdrop-blur\<close>.
\<close>

definition utility :: "string \<Rightarrow> string" where
  "utility c = rev (takeWhile (\<lambda>x. x \<noteq> CHR '':'') (rev c))"

definition is_background_class :: "string \<Rightarrow> bool" where
  "is_background_class c = starts_with ''bg-'' (utility c)"

definition is_backdrop_blur_class :: "string \<Rightarrow> bool" where
  "is_backdrop_blur_class c = starts_with ''backdrop-blur'' (utility c)"

section \<open>A call of the header\<close>

text \<open>
  Lines 35 to 40 of \<open>Header.tsx\<close> call four hooks before the markup is built, and
  destructure what two of them return. The hooks belong to \<open>./MobileNavigation\<close> and to
  framer-motion, which are not among the sources, so what they return is an argument here: a
  JavaScript value each. Destructuring \<open>undefined\<close> or \<open>null\<close> throws a TypeError; a
  property that an object does not have reads as \<open>undefined\<close>.
\<close>

datatype js_value =
    JUndefined
  | JNull
  | JBool bool
  | JNum real
  | JStr string
  | JObj "(string \<times> js_value) list"

definition js_destructure :: "js_value \<Rightarrow> string \<Rightarrow> render_error + js_value" where
  "js_destructure v k =
     (case v of
        JUndefined \<Rightarrow> Inl (RenderError ''TypeError: Cannot destructure property of undefined'')
      | JNull \<Rightarrow> Inl (RenderError ''TypeError: Cannot destructure property of null'')
      | JObj fs \<Rightarrow> Inr (case map_of fs k of None \<Rightarrow> JUndefined | Some x \<Rightarrow> x)
      | _ \<Rightarrow> Inr JUndefined)"

text \<open>What a value counts as under \<open>!\<close>, \<open>&&\<close>, \<open>||\<close> and \<open>? :\<close>.\<close>

definition js_truthy :: "js_value \<Rightarrow> bool" where
  "js_truthy v =
     (case v of
        JUndefined \<Rightarrow> False
      | JNull \<Rightarrow> False
      | JBool b \<Rightarrow> b
      | JNum n \<Rightarrow> n \<noteq> 0
      | JStr s \<Rightarrow> s \<noteq> []
      | JObj fs \<Rightarrow> True)"

text \<open>
  \<open>useTransform\<close> reads the current value of the motion value it is given (a number
  here); given anything else it throws.
\<close>

definition motion_value_get :: "js_value \<Rightarrow> render_error + real" where
  "motion_value_get v =
     (case v of
        JNum n \<Rightarrow> Inr n
      | _ \<Rightarrow> Inl (RenderError ''TypeError: not a motion value''))"

text \<open>
  What the hooks return in one render: \<open>useMobileNavigationStore()\<close>,
  \<open>useIsInsideMobileNavigation()\<close> and \<open>useScroll()\<close>, and \<open>process.env\<close>.
\<close>

record hook_results =
  useMobileNavigationStore :: js_value
  useIsInsideMobileNavigation :: js_value
  useScroll :: js_value
  env :: "string \<rightharpoonup> string"

text \<open>
  The call: \<open>let { isOpen: mobileNavIsOpen } = useMobileNavigationStore()\<close>,
  \<open>let isInsideMobileNavigation = useIsInsideMobileNavigation()\<close>,
  \<open>let { scrollY } = useScroll()\<close>, the two calls of \<open>useTransform\<close> on
  \<open>scrollY\<close>, and then the markup of \<open>Header\<close> in the state that was read. The two
  flags are only used as conditions.
\<close>

definition Header_call :: "header_props \<Rightarrow> ref \<Rightarrow> hook_results \<Rightarrow> render_result" where
  "Header_call p r h =
     (case js_destructure (useMobileNavigationStore h) ''isOpen'' of
        Inl err \<Rightarrow> Inl err
      | Inr isOpen \<Rightarrow>
     (case js_destructure (useScroll h) ''scrollY'' of
        Inl err \<Rightarrow> Inl err
      | Inr motionValue \<Rightarrow>
     (case motion_value_get motionValue of
        Inl err \<Rightarrow> Inl err
      | Inr y \<Rightarrow>
          Header p r
            \<lparr> scrollY = y,
              isInsideMobileNavigation = js_truthy (useIsInsideMobileNavigation h),
              mobileNavIsOpen = js_truthy isOpen,
              process_env = env h \<rparr>)))"


text \<open>The hooks' results that give \<open>example_runtime\<close>.\<close>

definition example_hooks :: hook_results where
  "example_hooks =
     \<lparr> useMobileNavigationStore = JObj [(''isOpen'', JBool False)],
       useIsInsideMobileNavigation = JBool False,
       useScroll = JObj [(''scrollY'', JNum 36)],
       env = process_env example_runtime \<rparr>"

section \<open>src/pages/blog/_posts\<close>

text \<open>
  The front-matter of a post is the block between the first two \<open>---\<close> lines of its file:
  one \<open>key: value\<close> per line, in the order of the file (the quotes around a value are
  YAML's and not part of it).
\<close>

type_synonym front_matter = "(string \<times> string) list"

definition lifecycle_emails_with_resend :: front_matter where
  "lifecycle_emails_with_resend =
    [(''heading'', ''Sending customer lifecycle emails with Resend and Inngest''),
     (''subtitle'', ''How to Send Effective and Reliable Emails in your Next.js Applications with Resend & Inngest''),
     (''image'', ''/assets/blog/lifcycle-emails-resend/customer-lifecycle-emails-with-resend-inngest.png''),
     (''date'', ''2023-08-21''),
     (''author'', ''Joel Hooks'')]"

definition run_nextjs_functions_in_the_background :: front_matter where
  "run_nextjs_functions_in_the_background =
    [(''heading'', ''Run Next.js functions in the background with events and schedules on Vercel and Netlify''),
     (''subtitle'', ''Learn how to use Next.js api functions and run them as you would a message queue or a cron job.''),
     (''image'', ''/assets/blog/run-nextjs-functions-in-the-background/featured-image.jpg''),
     (''date'', ''2022-10-04'')]"

definition vercel_long_running_background_functions :: front_matter where
  "vercel_long_running_background_functions =
    [(''heading'', ''Long-running background functions on Vercel''),
     (''subtitle'', ''How to run business critical jobs for minutes, hours or days''),
     (''image'', ''/assets/blog/vercel-long-running-background-functions/featured-image.png''),
     (''date'', ''2023-03-31''),
     (''author'', ''Dan Farrelly''),
     (''disableCTA'', ''true'')]"

text \<open>The post files under \<open>src/pages/blog/_posts\<close>, by file name.\<close>

definition blog_posts :: "(string \<times> front_matter) list" where
  "blog_posts =
    [(''lifecycle-emails-with-resend.mdx'', lifecycle_emails_with_resend),
     (''run-nextjs-functions-in-the-background.mdx'', run_nextjs_functions_in_the_background),
     (''vercel-long-running-background-functions.mdx'', vercel_long_running_background_functions)]"

definition has_field :: "front_matter \<Rightarrow> string \<Rightarrow> bool" where
  "has_field fm k = (k \<in> set (map fst fm))"

section \<open>src/pages/terms.tsx\<close>

record page_meta =
  title :: string
  description :: string

record page_props =
  designVersion :: string
  meta :: page_meta

record static_props =
  props_of :: page_props

definition getStaticProps :: "unit \<Rightarrow> static_props" where
  "getStaticProps u =
     \<lparr> props_of =
         \<lparr> designVersion = ''2'',
           meta = \<lparr> title = ''Terms'', description = ''Inngest's terms and conditions'' \<rparr> \<rparr> \<rparr>"

definition Terms :: "unit \<Rightarrow> runtime \<Rightarrow> render_result" where
  "Terms u rt = Inr (
    Element ''LegalPage''
      [(''iframeURL'', Str ''https://www.iubenda.com/terms-and-conditions/26885259'')] [])"

section \<open>Theorems\<close>

subsection \<open>Evaluating markup\<close>

text \<open>
  The strings of a markup are long and never rewritten: as congruence rules, these two
  keep the simplifier out of them.
\<close>

lemma Str_block: "Str s = Str s" by (rule refl)
lemma JsxText_block: "JsxText s = JsxText s" by (rule refl)

subsection \<open>The links of SocialCTA\<close>

lemma SocialCTA_anchors:
  "elements_named ''a'' (SocialCTA u rt) =
    [Element ''a''
       [(''href'', Str ''/docs?ref=homepage-hero''),
        (''className'', Str ''lg:mx-6  mt-3 lg:mt-6 inline-flex rounded-full text-sm font-medium px-6 py-2 bg-slate-800 hover:bg-slate-700 transition-all text-white'')]
       [JsxText ''Join the community''],
     Element ''a''
       [(''href'', Str ''/docs?ref=homepage-hero''),
        (''className'', Str ''lg:mx-6  mt-3 lg:mt-6 inline-flex rounded-full text-sm font-medium px-6 py-2 bg-slate-800 hover:bg-slate-700 transition-all text-white'')]
       [JsxText ''View Project'']]"
  by (simp add: SocialCTA_def elements_named_def elements_of_def cong: Str_block JsxText_block)

text \<open>
  C1. The claim: the anchors "Join the community" (Discord panel) and "View Project" (GitHub
  panel) link to a Discord invite URL and a GitHub repository URL. The code: SocialCTA
  renders exactly two anchors, one with each label, and both carry the href
  \<open>/docs?ref=homepage-hero\<close>, which is a route of the site and not an external URL.
\<close>

theorem SocialCTA_anchor_hrefs:
  "map href (labelled ''Join the community'' (elements_named ''a'' (SocialCTA () rt)))
     = [Some (Str ''/docs?ref=homepage-hero'')]
   \<and> map href (labelled ''View Project'' (elements_named ''a'' (SocialCTA () rt)))
     = [Some (Str ''/docs?ref=homepage-hero'')]
   \<and> map href (elements_named ''a'' (SocialCTA () rt))
     = [Some (Str ''/docs?ref=homepage-hero''), Some (Str ''/docs?ref=homepage-hero'')]
   \<and> \<not> is_external_url ''/docs?ref=homepage-hero''
   \<and> is_site_route ''/docs?ref=homepage-hero''"
  unfolding SocialCTA_anchors
  by (simp add: labelled_def href_def get_prop_def is_external_url_def is_site_route_def
      starts_with_def)

subsection \<open>The scroll-driven opacity of the header\<close>

lemma Header_style:
  "get_prop ''style'' (root_element (Header p r rt)) =
     Some (StyleV [(''--bg-opacity-light'', useTransform (scrollY rt) (0, 72) (0.5, 0.9)),
                   (''--bg-opacity-dark'', useTransform (scrollY rt) (0, 72) (0.2, 0.8))])"
  by (simp add: Header_def root_element_def get_prop_def Let_def cong: Str_block JsxText_block)

lemma useTransform_light:
  "useTransform s (0, 72) (0.5, 0.9) =
     (if s \<le> 0 then 0.5 else if 72 \<le> s then 0.9 else 0.5 + (0.9 - 0.5) * (s / 72))"
  by (simp add: useTransform_def clamp_def min_def max_def)

lemma useTransform_dark:
  "useTransform s (0, 72) (0.2, 0.8) =
     (if s \<le> 0 then 0.2 else if 72 \<le> s then 0.8 else 0.2 + (0.8 - 0.2) * (s / 72))"
  by (simp add: useTransform_def clamp_def min_def max_def)

text \<open>
  C2. At every scroll position the style of the header's root binds exactly two values,
  \<open>--bg-opacity-light\<close> and \<open>--bg-opacity-dark\<close>. Each is the linear interpolation
  of the scroll position over the input range from 0 to 72: the light one onto the range
  from 0.5 to 0.9, the dark one onto the range from 0.2 to 0.8, with the end values
  outside the input range. Nothing but the style of the root changes with the scroll
  position.
\<close>

theorem Header_scroll_opacity:
  "get_prop ''style'' (root_element (Header p r rt)) =
     Some (StyleV
       [(''--bg-opacity-light'',
           (if scrollY rt \<le> 0 then 0.5 else if 72 \<le> scrollY rt then 0.9
            else 0.5 + (0.9 - 0.5) * (scrollY rt / 72))),
        (''--bg-opacity-dark'',
           (if scrollY rt \<le> 0 then 0.2 else if 72 \<le> scrollY rt then 0.8
            else 0.2 + (0.8 - 0.2) * (scrollY rt / 72)))])
   \<and> without_root_prop ''style'' (Header p r (rt\<lparr>scrollY := y\<rparr>))
       = without_root_prop ''style'' (Header p r rt)"
proof -
  have frame: "without_root_prop ''style'' (Header p r (rt\<lparr>scrollY := y\<rparr>))
       = without_root_prop ''style'' (Header p r rt)"
    by (simp add: Header_def without_root_prop_def Let_def cong: Str_block JsxText_block)
  show ?thesis
    unfolding Header_style useTransform_light useTransform_dark using frame by simp
qed

text \<open>
  The header at the scroll positions 36 (half way), 0 and 500 (beyond the input range).
\<close>

theorem Header_scroll_opacity_witness:
  "get_prop ''style'' (root_element (Header \<lparr>className = None\<rparr> None example_runtime)) =
     Some (StyleV [(''--bg-opacity-light'', 0.7), (''--bg-opacity-dark'', 0.5)])
   \<and> get_prop ''style'' (root_element (Header \<lparr>className = None\<rparr> None (example_runtime\<lparr>scrollY := 0\<rparr>))) =
     Some (StyleV [(''--bg-opacity-light'', 0.5), (''--bg-opacity-dark'', 0.2)])
   \<and> get_prop ''style'' (root_element (Header \<lparr>className = None\<rparr> None (example_runtime\<lparr>scrollY := 500\<rparr>))) =
     Some (StyleV [(''--bg-opacity-light'', 0.9), (''--bg-opacity-dark'', 0.8)])"
  using Header_scroll_opacity [of "\<lparr>className = None\<rparr>" None example_runtime 0]
    Header_scroll_opacity [of "\<lparr>className = None\<rparr>" None "example_runtime\<lparr>scrollY := 0\<rparr>" 0]
    Header_scroll_opacity [of "\<lparr>className = None\<rparr>" None "example_runtime\<lparr>scrollY := 500\<rparr>" 0]
  by (simp add: example_runtime_def)

subsection \<open>The sign-in and sign-up links of the header\<close>

lemma Header_buttons:
  "elements_named ''Button'' (Header p r rt) =
     [Element ''Button''
        [(''href'', prop_of_optional (process_env rt ''NEXT_PUBLIC_SIGNIN_URL'')),
         (''size'', Str ''sm''), (''variant'', Str ''secondary'')]
        [JsxText ''Sign In''],
      Element ''Button''
        [(''href'', Str (js_String (process_env rt ''NEXT_PUBLIC_SIGNUP_URL'') @ ''?ref=docs-header'')),
         (''size'', Str ''sm''), (''arrow'', Str ''right'')]
        [JsxText ''Sign Up'']]"
  by (simp add: Header_def elements_named_def elements_of_def Let_def cong: Str_block JsxText_block)

text \<open>
  C3. For every pair of values of the environment variables \<open>NEXT_PUBLIC_SIGNIN_URL\<close>
  and \<open>NEXT_PUBLIC_SIGNUP_URL\<close>, the header has one button labelled "Sign In", whose href
  is the first value unchanged, and one button labelled "Sign Up", whose href is the second
  value followed by \<open>?ref=docs-header\<close>.
\<close>

theorem Header_sign_links:
  assumes "process_env rt ''NEXT_PUBLIC_SIGNIN_URL'' = Some signin"
    and "process_env rt ''NEXT_PUBLIC_SIGNUP_URL'' = Some signup"
  shows "map href (labelled ''Sign In'' (elements_named ''Button'' (Header p r rt))) = [Some (Str signin)]
    \<and> map href (labelled ''Sign Up'' (elements_named ''Button'' (Header p r rt)))
        = [Some (Str (signup @ ''?ref=docs-header''))]"
  unfolding Header_buttons using assms
  by (simp add: labelled_def href_def get_prop_def prop_of_optional_def js_String_def)

theorem Header_sign_links_witness:
  "process_env example_runtime ''NEXT_PUBLIC_SIGNIN_URL'' = Some ''https://app.inngest.com/sign-in''
   \<and> process_env example_runtime ''NEXT_PUBLIC_SIGNUP_URL'' = Some ''https://app.inngest.com/sign-up''
   \<and> map href (labelled ''Sign In'' (elements_named ''Button'' (Header \<lparr>className = None\<rparr> None example_runtime)))
       = [Some (Str ''https://app.inngest.com/sign-in'')]
   \<and> map href (labelled ''Sign Up'' (elements_named ''Button'' (Header \<lparr>className = None\<rparr> None example_runtime)))
       = [Some (Str ''https://app.inngest.com/sign-up?ref=docs-header'')]"
proof -
  have a: "process_env example_runtime ''NEXT_PUBLIC_SIGNIN_URL'' = Some ''https://app.inngest.com/sign-in''"
    by (simp add: example_runtime_def)
  have b: "process_env example_runtime ''NEXT_PUBLIC_SIGNUP_URL'' = Some ''https://app.inngest.com/sign-up''"
    by (simp add: example_runtime_def)
  show ?thesis
    using a b Header_sign_links [OF a b, of "\<lparr>className = None\<rparr>" None] by simp
qed

text \<open>
  When the variables are not set, the first href is \<open>undefined\<close> and the template literal
  of the second writes the word \<open>undefined\<close>.
\<close>

lemma Header_sign_links_unset:
  "process_env rt ''NEXT_PUBLIC_SIGNIN_URL'' = None \<Longrightarrow>
   process_env rt ''NEXT_PUBLIC_SIGNUP_URL'' = None \<Longrightarrow>
   map href (elements_named ''Button'' (Header p r rt))
     = [Some Undefined, Some (Str ''undefined?ref=docs-header'')]"
  unfolding Header_buttons
  by (simp add: href_def get_prop_def prop_of_optional_def js_String_def)

subsection \<open>The front-matter of the blog posts\<close>

text \<open>
  C4. The claim: every post defines \<open>heading\<close>, \<open>subtitle\<close>, \<open>image\<close>, \<open>date\<close> and
  \<open>author\<close>. The code: every post defines \<open>heading\<close>, \<open>subtitle\<close>, \<open>image\<close> and
  \<open>date\<close>; \<open>author\<close> is defined by two of the three posts and left out by
  \<open>run-nextjs-functions-in-the-background.mdx\<close>.
\<close>

theorem blog_front_matter:
  "(\<forall>post \<in> set blog_posts.
      has_field (snd post) ''heading'' \<and> has_field (snd post) ''subtitle''
      \<and> has_field (snd post) ''image'' \<and> has_field (snd post) ''date'')
   \<and> map (\<lambda>post. (fst post, has_field (snd post) ''author'')) blog_posts
       = [(''lifecycle-emails-with-resend.mdx'', True),
          (''run-nextjs-functions-in-the-background.mdx'', False),
          (''vercel-long-running-background-functions.mdx'', True)]"
  by (simp add: blog_posts_def has_field_def lifecycle_emails_with_resend_def
      run_nextjs_functions_in_the_background_def vercel_long_running_background_functions_def)

theorem blog_front_matter_witness:
  "(''run-nextjs-functions-in-the-background.mdx'', run_nextjs_functions_in_the_background)
      \<in> set blog_posts
   \<and> has_field run_nextjs_functions_in_the_background ''heading''
   \<and> has_field run_nextjs_functions_in_the_background ''subtitle''
   \<and> has_field run_nextjs_functions_in_the_background ''image''
   \<and> has_field run_nextjs_functions_in_the_background ''date''"
proof -
  have m: "(''run-nextjs-functions-in-the-background.mdx'', run_nextjs_functions_in_the_background)
      \<in> set blog_posts"
    by (simp add: blog_posts_def)
  with blog_front_matter show ?thesis by fastforce
qed

text \<open>The post that defines no \<open>author\<close>.\<close>

theorem blog_front_matter_counterexample:
  "(''run-nextjs-functions-in-the-background.mdx'', run_nextjs_functions_in_the_background)
      \<in> set blog_posts
   \<and> \<not> has_field run_nextjs_functions_in_the_background ''author''"
  by (simp add: blog_posts_def has_field_def run_nextjs_functions_in_the_background_def)

subsection \<open>The class lists of the header\<close>

lemma class_tokens_space:
  "class_tokens cur (a @ CHR '' '' # b) = class_tokens cur a @ class_tokens [] b"
  by (induction a arbitrary: cur) (simp_all add: is_space_def)

lemma classList_join: "classList (a @ CHR '' '' # b) = classList a @ classList b"
  by (simp add: classList_def class_tokens_space)

lemma classList_empty: "classList [] = []"
  by (simp add: classList_def)

lemma classList_clsx_from:
  "classList (clsx_from str args) =
     classList str @ concat (map (\<lambda>a. case a of ClassName x \<Rightarrow> classList x | _ \<Rightarrow> []) args)"
proof (induction args arbitrary: str)
  case Nil
  then show ?case by simp
next
  case (Cons a args)
  show ?case
  proof (cases a)
    case (ClassName x)
    then show ?thesis
      using Cons.IH [of "str @ '' '' @ x"] Cons.IH [of x] Cons.IH [of str]
      by (simp add: classList_join classList_empty)
  qed (simp_all add: Cons.IH)
qed

lemma classList_clsx:
  "classList (clsx args) = concat (map (\<lambda>a. case a of ClassName x \<Rightarrow> classList x | _ \<Rightarrow> []) args)"
  by (simp add: clsx_def classList_clsx_from classList_empty)

lemma classList_fixed:
  "classList ''fixed inset-x-0 top-0 z-50 flex h-14 items-center justify-between gap-12 px-4 transition sm:px-6 lg:z-30 lg:px-8''
   = [''fixed'', ''inset-x-0'', ''top-0'', ''z-50'', ''flex'', ''h-14'', ''items-center'',
      ''justify-between'', ''gap-12'', ''px-4'', ''transition'', ''sm:px-6'', ''lg:z-30'', ''lg:px-8'']"
  by (simp add: classList_def is_space_def)

lemma classList_blur:
  "classList ''backdrop-blur-sm dark:backdrop-blur lg:left-72 xl:left-80''
   = [''backdrop-blur-sm'', ''dark:backdrop-blur'', ''lg:left-72'', ''xl:left-80'']"
  by (simp add: classList_def is_space_def)

lemma classList_bg_solid:
  "classList ''bg-white dark:bg-slate-900'' = [''bg-white'', ''dark:bg-slate-900'']"
  by (simp add: classList_def is_space_def)

lemma classList_bg_var:
  "classList ''bg-white/[var(--bg-opacity-light)] dark:bg-slate-950/[var(--bg-opacity-dark)]''
   = [''bg-white/[var(--bg-opacity-light)]'', ''dark:bg-slate-950/[var(--bg-opacity-dark)]'']"
  by (simp add: classList_def is_space_def)

lemma classList_hairline_base:
  "classList ''absolute inset-x-0 top-full h-px transition''
   = [''absolute'', ''inset-x-0'', ''top-full'', ''h-px'', ''transition'']"
  by (simp add: classList_def is_space_def)

lemma classList_hairline_bg:
  "classList ''bg-slate-900/7.5 dark:bg-white/7.5'' = [''bg-slate-900/7.5'', ''dark:bg-white/7.5'']"
  by (simp add: classList_def is_space_def)

lemma Header_root_class_name:
  "class_name (root_element (Header p r rt)) =
     clsx [class_of_optional (className p),
       ClassName ''fixed inset-x-0 top-0 z-50 flex h-14 items-center justify-between gap-12 px-4 transition sm:px-6 lg:z-30 lg:px-8'',
       js_and (\<not> isInsideMobileNavigation rt) ''backdrop-blur-sm dark:backdrop-blur lg:left-72 xl:left-80'',
       (if isInsideMobileNavigation rt
        then ClassName ''bg-white dark:bg-slate-900''
        else ClassName ''bg-white/[var(--bg-opacity-light)] dark:bg-slate-950/[var(--bg-opacity-dark)]'')]"
  by (simp add: Header_def root_element_def class_name_def get_prop_def Let_def
      cong: Str_block JsxText_block)

lemma Header_hairline_class_name:
  "class_name (hairline_element (Header p r rt)) =
     clsx [ClassName ''absolute inset-x-0 top-full h-px transition'',
       js_and (isInsideMobileNavigation rt \<or> \<not> mobileNavIsOpen rt) ''bg-slate-900/7.5 dark:bg-white/7.5'']"
  by (simp add: Header_def root_element_def hairline_element_def class_name_def get_prop_def Let_def
      cong: Str_block JsxText_block)

lemma Header_root_classList:
  "classList (class_name (root_element (Header p r rt))) =
     caller_classes p
     @ [''fixed'', ''inset-x-0'', ''top-0'', ''z-50'', ''flex'', ''h-14'', ''items-center'',
        ''justify-between'', ''gap-12'', ''px-4'', ''transition'', ''sm:px-6'', ''lg:z-30'', ''lg:px-8'']
     @ (if isInsideMobileNavigation rt then [''bg-white'', ''dark:bg-slate-900'']
        else [''backdrop-blur-sm'', ''dark:backdrop-blur'', ''lg:left-72'', ''xl:left-80'',
              ''bg-white/[var(--bg-opacity-light)]'', ''dark:bg-slate-950/[var(--bg-opacity-dark)]''])"
  unfolding Header_root_class_name classList_clsx
  by (simp add: caller_classes_def class_of_optional_def js_and_def classList_fixed classList_blur
      classList_bg_solid classList_bg_var split: option.split)

lemma Header_hairline_classList:
  "classList (class_name (hairline_element (Header p r rt))) =
     [''absolute'', ''inset-x-0'', ''top-full'', ''h-px'', ''transition'']
     @ (if isInsideMobileNavigation rt \<or> \<not> mobileNavIsOpen rt
        then [''bg-slate-900/7.5'', ''dark:bg-white/7.5''] else [])"
  unfolding Header_hairline_class_name classList_clsx
  by (simp add: js_and_def classList_hairline_base classList_hairline_bg)

lemma classList_blur2:
  "classList ''backdrop-blur-sm dark:backdrop-blur'' = [''backdrop-blur-sm'', ''dark:backdrop-blur'']"
  by (simp add: classList_def is_space_def)

text \<open>
  C5. The claim: the root's class list contains \<open>bg-white dark:bg-slate-900\<close> exactly when
  \<open>isInsideMobileNavigation\<close> is true, and the variable-opacity background classes
  together with the backdrop-blur classes exactly when it is false. The code passes the
  caller's \<open>className\<close> through, so each holds up to what the caller supplies: the root's
  class list contains \<open>bg-white dark:bg-slate-900\<close> exactly when the header is inside the
  mobile navigation or the caller's \<open>className\<close> contains these classes itself, and it
  contains the variable-opacity background classes together with the backdrop-blur classes
  exactly when the header is not inside the mobile navigation or the caller's
  \<open>className\<close> contains them itself. The hairline's class list contains
  \<open>bg-slate-900/7.5 dark:bg-white/7.5\<close> exactly when the header is inside the mobile
  navigation or the mobile navigation is not open.
\<close>

theorem Header_conditional_classes:
  "(has_classes ''bg-white dark:bg-slate-900'' (classList (class_name (root_element (Header p r rt))))
      \<longleftrightarrow> isInsideMobileNavigation rt
          \<or> has_classes ''bg-white dark:bg-slate-900'' (caller_classes p))
   \<and> (has_classes ''bg-white/[var(--bg-opacity-light)] dark:bg-slate-950/[var(--bg-opacity-dark)]''
          (classList (class_name (root_element (Header p r rt))))
        \<and> has_classes ''backdrop-blur-sm dark:backdrop-blur''
          (classList (class_name (root_element (Header p r rt))))
      \<longleftrightarrow> \<not> isInsideMobileNavigation rt
          \<or> (has_classes ''bg-white/[var(--bg-opacity-light)] dark:bg-slate-950/[var(--bg-opacity-dark)]''
                (caller_classes p)
              \<and> has_classes ''backdrop-blur-sm dark:backdrop-blur'' (caller_classes p)))
   \<and> (has_classes ''bg-slate-900/7.5 dark:bg-white/7.5''
          (classList (class_name (hairline_element (Header p r rt))))
      \<longleftrightarrow> isInsideMobileNavigation rt \<or> \<not> mobileNavIsOpen rt)"
  unfolding Header_root_classList Header_hairline_classList has_classes_def
    classList_bg_solid classList_bg_var classList_blur2 classList_hairline_bg
  by (simp add: list_all_iff)

text \<open>The header outside the mobile navigation, called with the class name \<open>mt-4\<close>.\<close>

theorem Header_conditional_classes_witness:
  "\<not> isInsideMobileNavigation example_runtime
   \<and> \<not> has_classes ''bg-white dark:bg-slate-900'' (caller_classes \<lparr>className = Some ''mt-4''\<rparr>)
   \<and> \<not> has_classes ''bg-white dark:bg-slate-900''
        (classList (class_name (root_element (Header \<lparr>className = Some ''mt-4''\<rparr> None example_runtime))))
   \<and> has_classes ''bg-white/[var(--bg-opacity-light)] dark:bg-slate-950/[var(--bg-opacity-dark)]''
        (classList (class_name (root_element (Header \<lparr>className = Some ''mt-4''\<rparr> None example_runtime))))
   \<and> has_classes ''backdrop-blur-sm dark:backdrop-blur''
        (classList (class_name (root_element (Header \<lparr>className = Some ''mt-4''\<rparr> None example_runtime))))
   \<and> has_classes ''bg-slate-900/7.5 dark:bg-white/7.5''
        (classList (class_name (hairline_element (Header \<lparr>className = Some ''mt-4''\<rparr> None example_runtime))))"
  using Header_conditional_classes [of "\<lparr>className = Some ''mt-4''\<rparr>" None example_runtime]
  by (simp add: example_runtime_def caller_classes_def has_classes_def classList_def is_space_def)

text \<open>
  The header outside the mobile navigation, called with the class name
  \<open>bg-white dark:bg-slate-900\<close>: its root's class list contains these classes.
\<close>

theorem Header_conditional_classes_counterexample:
  "\<not> isInsideMobileNavigation example_runtime
   \<and> has_classes ''bg-white dark:bg-slate-900''
        (classList (class_name (root_element
           (Header \<lparr>className = Some ''bg-white dark:bg-slate-900''\<rparr> None example_runtime))))"
  unfolding Header_root_classList
  by (simp add: example_runtime_def caller_classes_def has_classes_def classList_bg_solid)

text \<open>
  C10. The claim: the root's class list always contains the fixed layout classes and the
  caller's \<open>className\<close>, and the two boolean states change only the background,
  backdrop-blur and hairline classes. The code: the root's class list is the caller's
  classes, then the fixed layout classes, then classes that depend on the state, each a
  background class, a backdrop-blur class or one of the left offsets \<open>lg:left-72\<close> and
  \<open>xl:left-80\<close> (they stand in the same argument as the backdrop-blur classes). The
  hairline's class list is its four fixed classes, then background classes that depend on the
  state. Apart from these two class names the markup does not depend on the two states.
\<close>

theorem Header_class_frame:
  "has_classes ''fixed inset-x-0 top-0 z-50 flex h-14 items-center justify-between gap-12 px-4 transition sm:px-6 lg:z-30 lg:px-8''
      (classList (class_name (root_element (Header p r rt))))
   \<and> list_all (\<lambda>c. c \<in> set (classList (class_name (root_element (Header p r rt))))) (caller_classes p)
   \<and> (\<exists>V. classList (class_name (root_element (Header p r rt)))
           = caller_classes p
             @ classList ''fixed inset-x-0 top-0 z-50 flex h-14 items-center justify-between gap-12 px-4 transition sm:px-6 lg:z-30 lg:px-8''
             @ V
         \<and> list_all (\<lambda>c. is_background_class c \<or> is_backdrop_blur_class c
                          \<or> c = ''lg:left-72'' \<or> c = ''xl:left-80'') V)
   \<and> (\<exists>H. classList (class_name (hairline_element (Header p r rt)))
           = classList ''absolute inset-x-0 top-full h-px transition'' @ H
         \<and> list_all is_background_class H)
   \<and> without_class_names
        (Header p r (rt\<lparr>isInsideMobileNavigation := inside', mobileNavIsOpen := open'\<rparr>))
       = without_class_names (Header p r rt)"
proof -
  let ?V = "if isInsideMobileNavigation rt then [''bg-white'', ''dark:bg-slate-900'']
        else [''backdrop-blur-sm'', ''dark:backdrop-blur'', ''lg:left-72'', ''xl:left-80'',
              ''bg-white/[var(--bg-opacity-light)]'', ''dark:bg-slate-950/[var(--bg-opacity-dark)]'']"
  let ?H = "if isInsideMobileNavigation rt \<or> \<not> mobileNavIsOpen rt
        then [''bg-slate-900/7.5'', ''dark:bg-white/7.5''] else []"
  have fixed: "has_classes ''fixed inset-x-0 top-0 z-50 flex h-14 items-center justify-between gap-12 px-4 transition sm:px-6 lg:z-30 lg:px-8''
      (classList (class_name (root_element (Header p r rt))))"
    unfolding Header_root_classList has_classes_def classList_fixed by simp
  have caller: "list_all (\<lambda>c. c \<in> set (classList (class_name (root_element (Header p r rt))))) (caller_classes p)"
    unfolding Header_root_classList by (simp add: list_all_iff)
  have V: "list_all (\<lambda>c. is_background_class c \<or> is_backdrop_blur_class c
                          \<or> c = ''lg:left-72'' \<or> c = ''xl:left-80'') ?V"
    by (simp add: is_background_class_def is_backdrop_blur_class_def utility_def starts_with_def)
  have root: "\<exists>V. classList (class_name (root_element (Header p r rt)))
           = caller_classes p
             @ classList ''fixed inset-x-0 top-0 z-50 flex h-14 items-center justify-between gap-12 px-4 transition sm:px-6 lg:z-30 lg:px-8''
             @ V
         \<and> list_all (\<lambda>c. is_background_class c \<or> is_backdrop_blur_class c
                          \<or> c = ''lg:left-72'' \<or> c = ''xl:left-80'') V"
    unfolding Header_root_classList classList_fixed using V by blast
  have H: "list_all is_background_class ?H"
    by (simp add: is_background_class_def utility_def starts_with_def)
  have hairline: "\<exists>H. classList (class_name (hairline_element (Header p r rt)))
           = classList ''absolute inset-x-0 top-full h-px transition'' @ H
         \<and> list_all is_background_class H"
    unfolding Header_hairline_classList classList_hairline_base using H by blast
  have frame: "without_class_names
        (Header p r (rt\<lparr>isInsideMobileNavigation := inside', mobileNavIsOpen := open'\<rparr>))
       = without_class_names (Header p r rt)"
    by (simp add: Header_def without_class_names_def Let_def cong: Str_block JsxText_block)
  from fixed caller root hairline frame show ?thesis by blast
qed

text \<open>The header called with the class name \<open>mt-4\<close>, and the same header with both states set.\<close>

theorem Header_class_frame_witness:
  "has_classes ''fixed inset-x-0 top-0 z-50 flex h-14 items-center justify-between gap-12 px-4 transition sm:px-6 lg:z-30 lg:px-8''
      (classList (class_name (root_element (Header \<lparr>className = Some ''mt-4''\<rparr> None example_runtime))))
   \<and> ''mt-4'' \<in> set (classList (class_name (root_element
        (Header \<lparr>className = Some ''mt-4''\<rparr> None example_runtime))))
   \<and> without_class_names (Header \<lparr>className = Some ''mt-4''\<rparr> None
        (example_runtime\<lparr>isInsideMobileNavigation := True, mobileNavIsOpen := True\<rparr>))
       = without_class_names (Header \<lparr>className = Some ''mt-4''\<rparr> None example_runtime)"
  using Header_class_frame [of "\<lparr>className = Some ''mt-4''\<rparr>" None example_runtime True True]
  by (simp add: caller_classes_def classList_def is_space_def)

text \<open>
  The left offset \<open>lg:left-72\<close> is in the root's class list outside the mobile navigation
  and not inside it, and it is neither a background nor a backdrop-blur class, nor a class of
  the hairline.
\<close>

theorem Header_class_frame_counterexample:
  "''lg:left-72'' \<in> set (classList (class_name (root_element
        (Header \<lparr>className = None\<rparr> None example_runtime))))
   \<and> ''lg:left-72'' \<notin> set (classList (class_name (root_element
        (Header \<lparr>className = None\<rparr> None (example_runtime\<lparr>isInsideMobileNavigation := True\<rparr>)))))
   \<and> \<not> is_background_class ''lg:left-72''
   \<and> \<not> is_backdrop_blur_class ''lg:left-72''
   \<and> ''lg:left-72'' \<notin> set (classList ''bg-slate-900/7.5 dark:bg-white/7.5'')"
  unfolding Header_root_classList classList_hairline_bg
  by (simp add: example_runtime_def caller_classes_def is_background_class_def
      is_backdrop_blur_class_def utility_def starts_with_def)

subsection \<open>The logo links of ShipInHours\<close>

lemma ShipInHours_anchors:
  "elements_named ''a'' (ShipInHours u rt) =
    [Element ''a''
       [(''href'', Str ''/docs/sdk/serve?ref=homepage-fits-your-workflow#framework-next-js''),
        (''className'', Str ''flex w-1/2 max-w-[140px] hover:scale-110 transition-all duration-150 opacity-50 hover:opacity-100'')]
       [Element ''img'' [(''className'', Str ''max-w-[140px]''), (''src'', Str ''/assets/homepage/send-events/next-js.png'')] []],
     Element ''a''
       [(''href'', Str ''/docs/sdk/serve?ref=homepage-fits-your-workflow#framework-express''),
        (''className'', Str ''flex w-1/2 max-w-[140px] hover:scale-110 transition-all duration-150 opacity-50 hover:opacity-100'')]
       [Element ''img'' [(''className'', Str ''max-w-[140px]''), (''src'', Str ''/assets/homepage/send-events/express.png'')] []],
     Element ''a''
       [(''href'', Str ''/docs/sdk/serve?ref=homepage-fits-your-workflow#framework-redwood''),
        (''className'', Str ''flex w-1/2 max-w-[140px] hover:scale-110 transition-all duration-150 opacity-50 hover:opacity-100'')]
       [Element ''img'' [(''className'', Str ''max-w-[140px]''), (''src'', Str ''/assets/homepage/send-events/redwood.png'')] []],
     Element ''a''
       [(''href'', Str ''/docs/deploy/vercel?ref=homepage-fits-your-workflow''),
        (''className'', Str ''flex w-1/2 md:w-1/3 max-w-[140px] hover:scale-110 transition-all duration-150 opacity-50 hover:opacity-100'')]
       [Element ''img'' [(''className'', Str ''max-w-[140px]''), (''src'', Str ''/assets/homepage/send-events/vercel.png'')] []],
     Element ''a''
       [(''href'', Str ''/docs/deploy/netlify?ref=homepage-fits-your-workflow''),
        (''className'', Str ''flex w-1/2 md:w-1/3 max-w-[140px] hover:scale-110 transition-all duration-150 opacity-50 hover:opacity-100'')]
       [Element ''img'' [(''className'', Str ''max-w-[140px]''), (''src'', Str ''/assets/homepage/send-events/netlify.png'')] []],
     Element ''a''
       [(''href'', Str ''/docs/deploy/cloudflare?ref=homepage-fits-your-workflow''),
        (''className'', Str ''flex w-1/2 md:w-1/3 max-w-[140px] hover:scale-110 transition-all duration-150 opacity-50 hover:opacity-100'')]
       [Element ''img'' [(''className'', Str ''max-w-[140px]''), (''src'', Str ''/assets/homepage/send-events/cloudflare-pages.png'')] []]]"
  by (simp add: ShipInHours_def elements_named_def elements_of_def cong: Str_block JsxText_block)

text \<open>
  C9. ShipInHours renders six anchors, one around each framework or platform logo (Next.js,
  Express, Redwood, Vercel, Netlify, Cloudflare, in this order). Every one of them has an
  href whose query string holds the parameter \<open>ref=homepage-fits-your-workflow\<close> and whose
  path is a route under \<open>/docs/\<close>.
\<close>

theorem ShipInHours_logo_links:
  "map (get_prop ''src'') (concat (map children (elements_named ''a'' (ShipInHours u rt))))
     = [Some (Str ''/assets/homepage/send-events/next-js.png''),
        Some (Str ''/assets/homepage/send-events/express.png''),
        Some (Str ''/assets/homepage/send-events/redwood.png''),
        Some (Str ''/assets/homepage/send-events/vercel.png''),
        Some (Str ''/assets/homepage/send-events/netlify.png''),
        Some (Str ''/assets/homepage/send-events/cloudflare-pages.png'')]
   \<and> (\<forall>a \<in> set (elements_named ''a'' (ShipInHours u rt)).
         (\<exists>s. href a = Some (Str s))
       \<and> ''ref=homepage-fits-your-workflow'' \<in> set (query_params (href_string a))
       \<and> starts_with ''/docs/'' (url_path (href_string a)))"
  unfolding ShipInHours_anchors
  by (simp add: href_def get_prop_def
      query_params_def url_query_def url_path_def url_without_fragment_def starts_with_def)

theorem ShipInHours_logo_links_witness:
  "elements_named ''a'' (ShipInHours () example_runtime) \<noteq> []
   \<and> href_string (hd (elements_named ''a'' (ShipInHours () example_runtime)))
       = ''/docs/sdk/serve?ref=homepage-fits-your-workflow#framework-next-js''
   \<and> ''ref=homepage-fits-your-workflow''
       \<in> set (query_params (href_string (hd (elements_named ''a'' (ShipInHours () example_runtime)))))
   \<and> starts_with ''/docs/'' (url_path (href_string (hd (elements_named ''a'' (ShipInHours () example_runtime)))))"
proof -
  have ne: "elements_named ''a'' (ShipInHours () example_runtime) \<noteq> []"
    unfolding ShipInHours_anchors by simp
  then have m: "hd (elements_named ''a'' (ShipInHours () example_runtime))
      \<in> set (elements_named ''a'' (ShipInHours () example_runtime))"
    by simp
  have h: "href_string (hd (elements_named ''a'' (ShipInHours () example_runtime)))
       = ''/docs/sdk/serve?ref=homepage-fits-your-workflow#framework-next-js''"
    unfolding ShipInHours_anchors by (simp add: href_def get_prop_def)
  from ShipInHours_logo_links [of "()" example_runtime] m
  have "''ref=homepage-fits-your-workflow''
       \<in> set (query_params (href_string (hd (elements_named ''a'' (ShipInHours () example_runtime)))))
   \<and> starts_with ''/docs/'' (url_path (href_string (hd (elements_named ''a'' (ShipInHours () example_runtime)))))"
    by blast
  with ne h show ?thesis by blast
qed

subsection \<open>The Terms page\<close>

text \<open>
  C6. The Terms page always renders \<open>LegalPage\<close> with the iubenda terms URL as
  \<open>iframeURL\<close> and nothing else, and \<open>getStaticProps\<close> returns, at every call,
  props with \<open>designVersion\<close> "2", meta title "Terms" and meta description
  "Inngest's terms and conditions".
\<close>

theorem Terms_page:
  "Terms u rt = Inr (Element ''LegalPage''
      [(''iframeURL'', Str ''https://www.iubenda.com/terms-and-conditions/26885259'')] [])
   \<and> map (get_prop ''iframeURL'') (elements_named ''LegalPage'' (Terms u rt))
       = [Some (Str ''https://www.iubenda.com/terms-and-conditions/26885259'')]
   \<and> designVersion (props_of (getStaticProps v)) = ''2''
   \<and> title (meta (props_of (getStaticProps v))) = ''Terms''
   \<and> description (meta (props_of (getStaticProps v))) = ''Inngest's terms and conditions''"
  by (simp add: Terms_def getStaticProps_def elements_named_def elements_of_def get_prop_def)

subsection \<open>Rendering returns, and depends on its inputs only\<close>







text \<open>
  The error branches of the call are real: it throws when a hook that is destructured
  returns \<open>undefined\<close> or \<open>null\<close>, and when \<open>useScroll\<close> returns an object without
  \<open>scrollY\<close>.
\<close>

lemma Header_call_throws:
  "useMobileNavigationStore h = JUndefined \<or> useMobileNavigationStore h = JNull
   \<or> useScroll h = JUndefined \<or> useScroll h = JNull
   \<Longrightarrow> isl (Header_call p r h)"
  by (auto simp: Header_call_def js_destructure_def split: sum.splits js_value.splits)

lemma Header_call_throws_without_scrollY:
  "isl (Header_call p r (example_hooks\<lparr>useScroll := JObj []\<rparr>))"
  by (simp add: Header_call_def js_destructure_def motion_value_get_def example_hooks_def)

text \<open>
  C8. The claim: two runs with equal props and equal local UI state (scroll position, the
  inside-mobile-navigation flag, the open flag) produce the same markup, and the output
  depends on no other state. The code: Header also reads the environment variables
  \<open>NEXT_PUBLIC_SIGNIN_URL\<close> and \<open>NEXT_PUBLIC_SIGNUP_URL\<close>. Two runs of Header with
  equal props, equal local UI state and equal values of these two variables produce the same
  markup; two runs of SocialCTA, or of ShipInHours, produce the same markup in any two
  states.
\<close>

theorem render_pure:
  "SocialCTA u rt = SocialCTA u' rt'
   \<and> ShipInHours u rt = ShipInHours u' rt'
   \<and> (scrollY rt = scrollY rt'
        \<and> isInsideMobileNavigation rt = isInsideMobileNavigation rt'
        \<and> mobileNavIsOpen rt = mobileNavIsOpen rt'
        \<and> process_env rt ''NEXT_PUBLIC_SIGNIN_URL'' = process_env rt' ''NEXT_PUBLIC_SIGNIN_URL''
        \<and> process_env rt ''NEXT_PUBLIC_SIGNUP_URL'' = process_env rt' ''NEXT_PUBLIC_SIGNUP_URL''
      \<longrightarrow> Header p r rt = Header p r rt')"
  by (simp add: Header_def SocialCTA_def ShipInHours_def Let_def cong: Str_block JsxText_block)

text \<open>Two states that differ in an environment variable that no component reads.\<close>

theorem render_pure_witness:
  "other_runtime \<noteq> example_runtime
   \<and> SocialCTA () other_runtime = SocialCTA () example_runtime
   \<and> ShipInHours () other_runtime = ShipInHours () example_runtime
   \<and> Header \<lparr>className = None\<rparr> None other_runtime = Header \<lparr>className = None\<rparr> None example_runtime"
proof -
  have ne: "process_env other_runtime ''NODE_ENV'' \<noteq> process_env example_runtime ''NODE_ENV''"
    by (simp add: other_runtime_def example_runtime_def)
  then have "other_runtime \<noteq> example_runtime" by auto
  moreover have "scrollY other_runtime = scrollY example_runtime
        \<and> isInsideMobileNavigation other_runtime = isInsideMobileNavigation example_runtime
        \<and> mobileNavIsOpen other_runtime = mobileNavIsOpen example_runtime
        \<and> process_env other_runtime ''NEXT_PUBLIC_SIGNIN_URL'' = process_env example_runtime ''NEXT_PUBLIC_SIGNIN_URL''
        \<and> process_env other_runtime ''NEXT_PUBLIC_SIGNUP_URL'' = process_env example_runtime ''NEXT_PUBLIC_SIGNUP_URL''"
    by (simp add: other_runtime_def example_runtime_def)
  ultimately show ?thesis
    using render_pure [of "()" other_runtime "()" example_runtime "\<lparr>className = None\<rparr>" None]
    by blast
qed

text \<open>
  Two runs of Header with equal props and equal local UI state, one with the two variables
  set and one without: the markup differs.
\<close>

theorem render_pure_counterexample:
  "scrollY (example_runtime\<lparr>process_env := Map.empty\<rparr>) = scrollY example_runtime
   \<and> isInsideMobileNavigation (example_runtime\<lparr>process_env := Map.empty\<rparr>)
       = isInsideMobileNavigation example_runtime
   \<and> mobileNavIsOpen (example_runtime\<lparr>process_env := Map.empty\<rparr>) = mobileNavIsOpen example_runtime
   \<and> Header \<lparr>className = None\<rparr> None (example_runtime\<lparr>process_env := Map.empty\<rparr>)
       \<noteq> Header \<lparr>className = None\<rparr> None example_runtime"
proof -
  have "map href (elements_named ''Button'' (Header \<lparr>className = None\<rparr> None (example_runtime\<lparr>process_env := Map.empty\<rparr>)))
      \<noteq> map href (elements_named ''Button'' (Header \<lparr>className = None\<rparr> None example_runtime))"
    unfolding Header_buttons
    by (simp add: example_runtime_def href_def get_prop_def prop_of_optional_def)
  then have "Header \<lparr>className = None\<rparr> None (example_runtime\<lparr>process_env := Map.empty\<rparr>)
       \<noteq> Header \<lparr>className = None\<rparr> None example_runtime"
    by auto
  then show ?thesis by simp
qed

end
